theory Spec2Isabelle
  imports Main
begin

section \<open>Python values, strings and errors\<close>

text \<open>
  The device layer of mpp-solar (\<^verbatim>\<open>mppsolar/devices/device.py\<close>, \<^verbatim>\<open>jk24s.py\<close>,
  \<^verbatim>\<open>mppsolar.py\<close>) is embedded here. An exception of the source is a value of
  \<open>py_error\<close>; a function that can raise returns \<open>py_error + 'a\<close>, with \<open>Inl\<close> the
  exception.
\<close>

datatype py_error = AttributeError | TypeError

text \<open>
  The immutable Python values that travel through the device layer untouched: aliases
  (dictionary keys), the \<^verbatim>\<open>show_raw\<close> flag, wire payloads, raw replies and the
  fields of a decoded reply. All of them are hashable.
\<close>

datatype pyval =
    PNone
  | PBool bool
  | PInt int
  | PStr string
  | PBytes string
  | PTuple "pyval list"

subsection \<open>Strings\<close>

text \<open>
  A string is a list of characters. \<open>lower\<close> lower-cases the ASCII letters, and is used
  by the classifier only: Python's \<^verbatim>\<open>str.lower()\<close> lower-cases other letters too, none
  of them to a letter of \<^verbatim>\<open>test\<close> or \<^verbatim>\<open>esp\<close>, the only needles the classifier
  searches for in a lower-cased string.
\<close>

definition lower_char :: "char \<Rightarrow> char" where
  "lower_char c =
     (case map_of (zip ''ABCDEFGHIJKLMNOPQRSTUVWXYZ'' ''abcdefghijklmnopqrstuvwxyz'') c of
        Some l \<Rightarrow> l
      | None \<Rightarrow> c)"

definition lower :: "string \<Rightarrow> string" where
  "lower s = map lower_char s"

fun startswith :: "string \<Rightarrow> string \<Rightarrow> bool" where
  "startswith s [] = True"
| "startswith [] (p # ps) = False"
| "startswith (c # cs) (p # ps) = (c = p \<and> startswith cs ps)"

text \<open>\<^verbatim>\<open>sub in s\<close> on strings: \<open>sub\<close> occurs in \<open>s\<close> as a contiguous block.\<close>

fun str_in :: "string \<Rightarrow> string \<Rightarrow> bool" where
  "str_in sub [] = (sub = [])"
| "str_in sub (c # cs) = (startswith (c # cs) sub \<or> str_in sub cs)"

section \<open>The transport classifier\<close>

definition PORT_TYPE_TEST :: nat where "PORT_TYPE_TEST = 1"
definition PORT_TYPE_USB :: nat where "PORT_TYPE_USB = 2"
definition PORT_TYPE_ESP32 :: nat where "PORT_TYPE_ESP32 = 4"
definition PORT_TYPE_SERIAL :: nat where "PORT_TYPE_SERIAL = 8"
definition PORT_TYPE_JKBLE :: nat where "PORT_TYPE_JKBLE = 16"

text \<open>
  A locator is a string or \<^verbatim>\<open>None\<close> (the default of \<^verbatim>\<open>set_port\<close>). A method call on
  \<^verbatim>\<open>None\<close> raises \<^verbatim>\<open>AttributeError\<close>; \<^verbatim>\<open>":" in None.lower()\<close> does the same.
\<close>

fun is_test_device :: "string option \<Rightarrow> py_error + bool" where
  "is_test_device None = Inl AttributeError"
| "is_test_device (Some serial_device) = Inr (str_in ''test'' (lower serial_device))"

fun is_directusb_device :: "string option \<Rightarrow> py_error + bool" where
  "is_directusb_device None = Inr False"
| "is_directusb_device (Some serial_device) =
     Inr (if serial_device = [] then False
          else if str_in ''hidraw'' serial_device then True
          else if str_in ''mppsolar'' serial_device then True
          else False)"

fun is_ESP32_device :: "string option \<Rightarrow> py_error + bool" where
  "is_ESP32_device None = Inl AttributeError"
| "is_ESP32_device (Some serial_device) = Inr (str_in ''esp'' (lower serial_device))"

fun is_JKBle_device :: "string option \<Rightarrow> py_error + bool" where
  "is_JKBle_device None = Inl AttributeError"
| "is_JKBle_device (Some serial_device) = Inr (str_in '':'' (lower serial_device))"

definition get_port_type :: "string option \<Rightarrow> py_error + nat" where
  "get_port_type port =
     (case is_test_device port of
        Inl e \<Rightarrow> Inl e
      | Inr True \<Rightarrow> Inr PORT_TYPE_TEST
      | Inr False \<Rightarrow>
     (case is_directusb_device port of
        Inl e \<Rightarrow> Inl e
      | Inr True \<Rightarrow> Inr PORT_TYPE_USB
      | Inr False \<Rightarrow>
     (case is_ESP32_device port of
        Inl e \<Rightarrow> Inl e
      | Inr True \<Rightarrow> Inr PORT_TYPE_ESP32
      | Inr False \<Rightarrow>
     (case is_JKBle_device port of
        Inl e \<Rightarrow> Inl e
      | Inr True \<Rightarrow> Inr PORT_TYPE_JKBLE
      | Inr False \<Rightarrow> Inr PORT_TYPE_SERIAL))))"

section \<open>Dictionaries\<close>

text \<open>
  A \<^verbatim>\<open>dict\<close> is a map from keys to values. Keys are compared with Python's \<^verbatim>\<open>==\<close>,
  under which \<^verbatim>\<open>True == 1\<close> and \<^verbatim>\<open>False == 0\<close>, also inside tuples: a key is stored
  and looked up in the normal form \<open>key_norm\<close>, where a boolean is the integer it equals.
\<close>

fun key_norm :: "pyval \<Rightarrow> pyval" where
  "key_norm (PBool b) = PInt (if b then 1 else 0)"
| "key_norm (PTuple xs) = PTuple (map key_norm xs)"
| "key_norm PNone = PNone"
| "key_norm (PInt i) = PInt i"
| "key_norm (PStr s) = PStr s"
| "key_norm (PBytes s) = PBytes s"

definition py_eq :: "pyval \<Rightarrow> pyval \<Rightarrow> bool" where
  "py_eq a b = (key_norm a = key_norm b)"

type_synonym 'v pydict = "pyval \<rightharpoonup> 'v"

text \<open>\<^verbatim>\<open>d[k] = v\<close>, \<^verbatim>\<open>d.get(k)\<close>, \<^verbatim>\<open>d.keys()\<close> and \<^verbatim>\<open>data.update(other)\<close>.\<close>

definition dict_set :: "pyval \<Rightarrow> 'v \<Rightarrow> 'v pydict \<Rightarrow> 'v pydict" where
  "dict_set k v d = d(key_norm k \<mapsto> v)"

definition dict_get :: "'v pydict \<Rightarrow> pyval \<Rightarrow> 'v option" where
  "dict_get d k = d (key_norm k)"

definition dict_keys :: "'v pydict \<Rightarrow> pyval set" where
  "dict_keys d = dom d"

definition dict_update :: "'v pydict \<Rightarrow> 'v pydict \<Rightarrow> 'v pydict" where
  "dict_update data other = data ++ other"

text \<open>A Response maps a field name to the list \<^verbatim>\<open>[value, unit]\<close>.\<close>

type_synonym response = "pyval list pydict"

section \<open>Collaborators: the protocol codec and the transport\<close>

text \<open>
  The codecs (\<^verbatim>\<open>mppsolar.protocols.*\<close>) and the transports (\<^verbatim>\<open>mppsolar.io.*\<close>) are
  parameters of the device layer. A codec is the record of what the device reads from it
  and calls on it. Both report their failures in-band (a transport returns a dictionary
  carrying \<^verbatim>\<open>ERROR\<close> where it caught an exception), so their operations are total here.
\<close>

record protocol =
  STATUS_COMMANDS :: "string list"
  SETTINGS_COMMANDS :: "string list"
  DEFAULT_COMMAND :: string
  get_full_command :: "string \<Rightarrow> pyval"
  get_command_defn :: "string \<Rightarrow> pyval"
  decode :: "pyval \<Rightarrow> pyval \<Rightarrow> string \<Rightarrow> response"

text \<open>What a raw \<^verbatim>\<open>send_and_receive\<close> returns: the reply, or a dictionary.\<close>

datatype raw_response = Raw pyval | Dict response

datatype port_class = JkBleIO | TestIO | HIDRawIO | ESP32IO | SerialIO

text \<open>
  A transport object has a class, a state of its own (\<open>port_state\<close>: the connection and
  the device behind it), and the method \<^verbatim>\<open>send_and_receive\<close>, which the device layer
  calls in three shapes: \<^verbatim>\<open>(full_command)\<close>, \<^verbatim>\<open>(full_command, command_defn)\<close> and
  \<^verbatim>\<open>(command, show_raw, protocol)\<close>. Each shape takes the state and returns the new one.
\<close>

record 's port =
  port_class :: port_class
  port_state :: 's
  send_and_receive1 :: "'s \<Rightarrow> pyval \<Rightarrow> raw_response \<times> 's"
  send_and_receive2 :: "'s \<Rightarrow> pyval \<Rightarrow> pyval \<Rightarrow> raw_response \<times> 's"
  send_and_receive3 :: "'s \<Rightarrow> string \<Rightarrow> pyval \<Rightarrow> protocol \<Rightarrow> response \<times> 's"

text \<open>
  The calls a device makes on its collaborators, in the order it makes them. For
  \<open>SendAndReceive3\<close> the third argument is the bound codec itself.
\<close>

datatype event =
    GetFullCommand string
  | GetCommandDefn string
  | Decode pyval pyval string
  | SendAndReceive1 pyval
  | SendAndReceive2 pyval pyval
  | SendAndReceive3 string pyval

text \<open>The \<^verbatim>\<open>show_raw\<close> flag a logged call carries, if it carries one.\<close>

fun event_show_raw :: "event \<Rightarrow> pyval option" where
  "event_show_raw (Decode raw show_raw command) = Some show_raw"
| "event_show_raw (SendAndReceive3 command show_raw) = Some show_raw"
| "event_show_raw (GetFullCommand command) = None"
| "event_show_raw (GetCommandDefn command) = None"
| "event_show_raw (SendAndReceive1 full_command) = None"
| "event_show_raw (SendAndReceive2 full_command defn) = None"

section \<open>Devices\<close>

text \<open>
  A protocol class is modelled by what calling it gives: the codec instance, or the
  exception its constructor raises.
\<close>

record protocol_class =
  construct :: "py_error + protocol"

datatype device_class = jk24s | mppsolar

record 's device =
  device_class :: device_class
  self_name :: string
  self_protocol :: "protocol option"
  self_protocol_class :: "protocol_class option"
  self_port :: "'s port option"

text \<open>
  A method that talks to the collaborators takes and returns the device together with
  the log of the calls made so far.
\<close>

type_synonym 's world = "'s device \<times> event list"

subsection \<open>Binding a protocol\<close>

text \<open>
  \<^verbatim>\<open>protocol.lower()\<close> is the parameter \<open>str_lower\<close>: Python's \<^verbatim>\<open>str.lower()\<close>, which
  lower-cases the letters of every script, on any protocol name.
  \<^verbatim>\<open>importlib.import_module\<close> is the parameter \<open>import_module\<close>: the module of that
  name, or \<open>None\<close> where Python raises \<^verbatim>\<open>ModuleNotFoundError\<close>. A module is what
  \<^verbatim>\<open>getattr\<close> finds in it: \<open>None\<close> where Python raises \<^verbatim>\<open>AttributeError\<close>. Both
  exceptions are caught by \<^verbatim>\<open>set_protocol\<close>; an exception of the constructor is not,
  and leaves with the class already stored.
\<close>

type_synonym py_module = "string \<Rightarrow> protocol_class option"

definition set_protocol ::
  "(string \<Rightarrow> string) \<Rightarrow> (string \<Rightarrow> py_module option) \<Rightarrow> string option \<Rightarrow> 's device \<Rightarrow>
     py_error option \<times> 's device"
where
  "set_protocol str_lower import_module protocol self =
     (case protocol of
        None \<Rightarrow> (None, self\<lparr>self_protocol := None, self_protocol_class := None\<rparr>)
      | Some protocol_name \<Rightarrow>
          (let protocol_id = str_lower protocol_name in
           case import_module (''mppsolar.protocols.'' @ protocol_id) of
             None \<Rightarrow> (None, self\<lparr>self_protocol := None, self_protocol_class := None\<rparr>)
           | Some proto_module \<Rightarrow>
               (case proto_module protocol_id of
                  None \<Rightarrow> (None, self\<lparr>self_protocol := None, self_protocol_class := None\<rparr>)
                | Some cls \<Rightarrow>
                    (case construct cls of
                       Inl e \<Rightarrow> (Some e, self\<lparr>self_protocol_class := Some cls\<rparr>)
                     | Inr instance \<Rightarrow>
                         (None, self\<lparr>self_protocol_class := Some cls,
                                     self_protocol := Some instance\<rparr>)))))"

subsection \<open>Running one command\<close>

definition no_protocol_response :: response where
  "no_protocol_response =
     [PStr ''ERROR'' \<mapsto> [PStr ''Attempted to run command with no protocol defined'', PStr '''']]"

definition no_port_response :: "string \<Rightarrow> response" where
  "no_port_response command =
     [PStr ''ERROR'' \<mapsto>
       [PStr (''No communications port defined - unable to run command '' @ command), PStr '''']]"

text \<open>\<^verbatim>\<open>jk24s.run_command\<close>. A command name is a string.\<close>

definition jk24s_run_command :: "string \<Rightarrow> pyval \<Rightarrow> 's world \<Rightarrow> response \<times> 's world" where
  "jk24s_run_command command show_raw w =
     (case w of (self, log) \<Rightarrow>
     (case self_protocol self of
        None \<Rightarrow> (no_protocol_response, w)
      | Some proto \<Rightarrow>
     (case self_port self of
        None \<Rightarrow> (no_port_response command, w)
      | Some port \<Rightarrow>
          if port_class port = JkBleIO then
            (case send_and_receive3 port (port_state port) command show_raw proto of
               (decoded_response, st) \<Rightarrow>
                 (decoded_response,
                  (self\<lparr>self_port := Some (port\<lparr>port_state := st\<rparr>)\<rparr>,
                   log @ [SendAndReceive3 command show_raw])))
          else
            (let full_command = get_full_command proto command;
                 log1 = log @ [GetFullCommand command]
             in case (if port_class port = TestIO then
                        (let defn = get_command_defn proto command
                         in (send_and_receive2 port (port_state port) full_command defn,
                             log1 @ [GetCommandDefn command, SendAndReceive2 full_command defn]))
                      else
                        (send_and_receive1 port (port_state port) full_command,
                         log1 @ [SendAndReceive1 full_command])) of
                  ((raw_response, st), log2) \<Rightarrow>
                    (let self' = self\<lparr>self_port := Some (port\<lparr>port_state := st\<rparr>)\<rparr>
                     in case raw_response of
                          Dict d \<Rightarrow> (d, (self', log2))
                        | Raw raw \<Rightarrow>
                            (decode proto raw show_raw command,
                             (self', log2 @ [Decode raw show_raw command])))))))"

text \<open>\<^verbatim>\<open>mppsolar.run_command\<close>: every transport is handed the command and the codec.\<close>

definition mppsolar_run_command :: "string \<Rightarrow> pyval \<Rightarrow> 's world \<Rightarrow> response \<times> 's world" where
  "mppsolar_run_command command show_raw w =
     (case w of (self, log) \<Rightarrow>
     (case self_protocol self of
        None \<Rightarrow> (no_protocol_response, w)
      | Some proto \<Rightarrow>
     (case self_port self of
        None \<Rightarrow> (no_port_response command, w)
      | Some port \<Rightarrow>
          (case send_and_receive3 port (port_state port) command show_raw proto of
             (response, st) \<Rightarrow>
               (response,
                (self\<lparr>self_port := Some (port\<lparr>port_state := st\<rparr>)\<rparr>,
                 log @ [SendAndReceive3 command show_raw]))))))"

text \<open>\<^verbatim>\<open>self.run_command(...)\<close>: the method of the device's own class.\<close>

definition run_command :: "string \<Rightarrow> pyval \<Rightarrow> 's world \<Rightarrow> response \<times> 's world" where
  "run_command command show_raw w =
     (case device_class (fst w) of
        jk24s \<Rightarrow> jk24s_run_command command show_raw w
      | mppsolar \<Rightarrow> mppsolar_run_command command show_raw w)"

text \<open>
  \<^verbatim>\<open>self.run_command(command, *args)\<close>: the signature is
  \<^verbatim>\<open>run_command(self, command, show_raw=False)\<close> in both classes, so no extra argument
  leaves the default, one is \<^verbatim>\<open>show_raw\<close>, and more raise \<^verbatim>\<open>TypeError\<close> before the body
  runs.
\<close>

definition call_run_command ::
  "string \<Rightarrow> pyval list \<Rightarrow> 's world \<Rightarrow> py_error + (response \<times> 's world)"
where
  "call_run_command command args w =
     (case args of
        [] \<Rightarrow> Inr (run_command command (PBool False) w)
      | [show_raw] \<Rightarrow> Inr (run_command command show_raw w)
      | _ \<Rightarrow> Inl TypeError)"

definition run_default_command :: "pyval \<Rightarrow> 's world \<Rightarrow> (py_error + response) \<times> 's world" where
  "run_default_command show_raw w =
     (case self_protocol (fst w) of
        None \<Rightarrow> (Inl AttributeError, w)
      | Some proto \<Rightarrow>
          (case run_command (DEFAULT_COMMAND proto) show_raw w of
             (r, w') \<Rightarrow> (Inr r, w')))"

subsection \<open>Status and settings\<close>

text \<open>
  The loop of \<^verbatim>\<open>get_status\<close> and of \<^verbatim>\<open>get_settings\<close>, the same text in both classes:
  \<^verbatim>\<open>for command in ...: data.update(self.run_command(command))\<close>.
\<close>

fun update_loop :: "string list \<Rightarrow> response \<Rightarrow> 's world \<Rightarrow> response \<times> 's world" where
  "update_loop [] data w = (data, w)"
| "update_loop (command # commands) data w =
     (case run_command command (PBool False) w of
        (r, w') \<Rightarrow> update_loop commands (dict_update data r) w')"

definition get_status :: "pyval \<Rightarrow> 's world \<Rightarrow> (py_error + response) \<times> 's world" where
  "get_status show_raw w =
     (case self_protocol (fst w) of
        None \<Rightarrow> (Inl AttributeError, w)
      | Some proto \<Rightarrow>
          (case update_loop (STATUS_COMMANDS proto) Map.empty w of
             (data, w') \<Rightarrow> (Inr data, w')))"

definition get_settings :: "pyval \<Rightarrow> 's world \<Rightarrow> (py_error + response) \<times> 's world" where
  "get_settings show_raw w =
     (case self_protocol (fst w) of
        None \<Rightarrow> (Inl AttributeError, w)
      | Some proto \<Rightarrow>
          (case update_loop (SETTINGS_COMMANDS proto) Map.empty w of
             (data, w') \<Rightarrow> (Inr data, w')))"

subsection \<open>Running a batch\<close>

text \<open>\<^verbatim>\<open>"{:d}".format(i)\<close> for an index: its decimal digits.\<close>

fun format_d :: "nat \<Rightarrow> string" where
  "format_d n =
     (if n < 10 then [''0123456789'' ! n]
      else format_d (n div 10) @ [''0123456789'' ! (n mod 10)])"

declare format_d.simps [simp del]

text \<open>
  An entry of a batch: a string; a non-empty tuple, here its first element (a command
  name) and the list of the others; or anything else (\<^verbatim>\<open>42\<close>, \<^verbatim>\<open>None\<close>, \<^verbatim>\<open>()\<close>).
\<close>

datatype entry = EStr string | ETuple string "pyval list" | EOther

definition unknown_format_response :: response where
  "unknown_format_response =
     [PStr ''ERROR'' \<mapsto> [PStr ''Unknown command format'', PStr ''(Indexed from 0)'']]"

text \<open>
  The loop of \<^verbatim>\<open>run_commands\<close>, from entry \<open>i\<close> on. For \<open>ETuple c0 rest\<close>,
  \<^verbatim>\<open>len(command)\<close> is \<open>Suc (length rest)\<close>, \<^verbatim>\<open>command[1]\<close> is \<open>rest ! 0\<close> and
  \<^verbatim>\<open>command[2:]\<close> is \<open>drop 1 rest\<close>. The right-hand side of an assignment is run before
  its result is stored.
\<close>

fun run_commands_loop ::
  "nat \<Rightarrow> entry list \<Rightarrow> response pydict \<Rightarrow> 's world \<Rightarrow> (py_error + response pydict) \<times> 's world"
where
  "run_commands_loop i [] responses w = (Inr responses, w)"
| "run_commands_loop i (EStr command # commands) responses w =
     (case run_command command (PBool False) w of
        (r, w') \<Rightarrow> run_commands_loop (Suc i) commands (dict_set (PStr command) r responses) w')"
| "run_commands_loop i (ETuple c0 rest # commands) responses w =
     (if Suc (length rest) = 1 then
        (case run_command c0 (PBool False) w of
           (r, w') \<Rightarrow> run_commands_loop (Suc i) commands (dict_set (PStr c0) r responses) w')
      else if Suc (length rest) = 2 then
        (case run_command c0 (PBool False) w of
           (r, w') \<Rightarrow> run_commands_loop (Suc i) commands (dict_set (rest ! 0) r responses) w')
      else
        (case call_run_command c0 (drop 1 rest) w of
           Inl e \<Rightarrow> (Inl e, w)
         | Inr (r, w') \<Rightarrow>
             run_commands_loop (Suc i) commands (dict_set (rest ! 0) r responses) w'))"
| "run_commands_loop i (EOther # commands) responses w =
     run_commands_loop (Suc i) commands
       (dict_set (PStr (''Command '' @ format_d i)) unknown_format_response responses) w"

definition run_commands :: "entry list \<Rightarrow> 's world \<Rightarrow> (py_error + response pydict) \<times> 's world" where
  "run_commands commands w = run_commands_loop 0 commands Map.empty w"

section \<open>What the batch and the merge amount to\<close>

text \<open>
  The definitions of this section are not taken from the source: they say, entry by
  entry and command by command, what the loops above are claimed to compute, and the
  theorems below compare the loops with them.
\<close>

text \<open>A tuple entry fits \<^verbatim>\<open>run_command\<close> when it has at most three elements.\<close>

fun entry_fits :: "entry \<Rightarrow> bool" where
  "entry_fits (ETuple c0 rest) = (length rest \<le> 2)"
| "entry_fits (EStr command) = True"
| "entry_fits EOther = True"

text \<open>
  The key an entry is filed under: a string under itself, a 1-tuple under its element, a
  longer tuple under its second element, anything else under \<^verbatim>\<open>Command i\<close>.
\<close>

fun entry_key :: "nat \<Rightarrow> entry \<Rightarrow> pyval" where
  "entry_key i (EStr command) = PStr command"
| "entry_key i (ETuple c0 []) = PStr c0"
| "entry_key i (ETuple c0 (alias # extra)) = alias"
| "entry_key i EOther = PStr (''Command '' @ format_d i)"

text \<open>
  The command an entry runs and the \<^verbatim>\<open>show_raw\<close> it runs with: the third element of a
  tuple that has one, \<^verbatim>\<open>False\<close> otherwise; nothing is run for an unknown format.
\<close>

fun entry_command :: "entry \<Rightarrow> (string \<times> pyval) option" where
  "entry_command (EStr command) = Some (command, PBool False)"
| "entry_command (ETuple c0 []) = Some (c0, PBool False)"
| "entry_command (ETuple c0 [alias]) = Some (c0, PBool False)"
| "entry_command (ETuple c0 (alias # show_raw # extra)) = Some (c0, show_raw)"
| "entry_command EOther = None"

text \<open>
  The entries from index \<open>i\<close> on, run one after the other, each from the state the one
  before left: the list of the keys with the results filed under them, and the final state.
\<close>

fun filed :: "nat \<Rightarrow> entry list \<Rightarrow> 's world \<Rightarrow> (pyval \<times> response) list \<times> 's world" where
  "filed i [] w = ([], w)"
| "filed i (c # cs) w =
     (case entry_command c of
        None \<Rightarrow>
          (case filed (Suc i) cs w of
             (ps, w') \<Rightarrow> ((entry_key i c, unknown_format_response) # ps, w'))
      | Some (command, show_raw) \<Rightarrow>
          (case run_command command show_raw w of
             (r, w1) \<Rightarrow>
               (case filed (Suc i) cs w1 of
                  (ps, w2) \<Rightarrow> ((entry_key i c, r) # ps, w2))))"

text \<open>Last write wins: what the latest pair with a key equal to \<open>k\<close> holds.\<close>

fun latest :: "(pyval \<times> 'v) list \<Rightarrow> pyval \<Rightarrow> 'v option" where
  "latest [] k = None"
| "latest ((k', v) # ps) k =
     (case latest ps k of
        Some x \<Rightarrow> Some x
      | None \<Rightarrow> if py_eq k' k then Some v else None)"

text \<open>
  The commands of a list run in order without \<^verbatim>\<open>show_raw\<close>, each from the state the one
  before left: the list of their responses, and the final state.
\<close>

fun run_each :: "string list \<Rightarrow> 's world \<Rightarrow> response list \<times> 's world" where
  "run_each [] w = ([], w)"
| "run_each (command # commands) w =
     (case run_command command (PBool False) w of
        (r, w1) \<Rightarrow>
          (case run_each commands w1 of
             (rs, w2) \<Rightarrow> (r # rs, w2)))"

text \<open>One flat mapping of a list of responses: a key holds what the latest response
  that has it gives.\<close>

fun merged :: "response list \<Rightarrow> response" where
  "merged [] = Map.empty"
| "merged (r # rs) = (\<lambda>k. case merged rs k of Some v \<Rightarrow> Some v | None \<Rightarrow> r k)"

section \<open>A concrete codec, transport and registry\<close>

text \<open>
  Small collaborators to run the model on. The transport counts its calls in its state;
  its raw \<^verbatim>\<open>send_and_receive\<close> answers twice and reports a timeout in-band from then on.
\<close>

definition example_protocol :: protocol where
  "example_protocol =
     \<lparr>STATUS_COMMANDS = [''QPIGS'', ''Q1''],
      SETTINGS_COMMANDS = [''QPIRI''],
      DEFAULT_COMMAND = ''QPI'',
      get_full_command = (\<lambda>command. PBytes (command @ ''#'')),
      get_command_defn = (\<lambda>command. PStr command),
      decode = (\<lambda>raw show_raw command.
        [PStr command \<mapsto> [raw, PStr ''''], PStr ''raw'' \<mapsto> [show_raw, PStr ''''],
         PStr ''last'' \<mapsto> [PStr command, PStr '''']])\<rparr>"

definition example_port :: "port_class \<Rightarrow> nat port" where
  "example_port cls =
     \<lparr>port_class = cls,
      port_state = 0,
      send_and_receive1 = (\<lambda>n full_command.
        (if n < 2 then Raw (PTuple [PInt (int n), full_command])
         else Dict [PStr ''ERROR'' \<mapsto> [PStr ''timeout'', PStr '''']],
         Suc n)),
      send_and_receive2 = (\<lambda>n full_command defn. (Raw (PTuple [defn, full_command]), Suc n)),
      send_and_receive3 = (\<lambda>n command show_raw proto.
        ([PStr command \<mapsto> [PInt (int n), PStr ''V'']], Suc n))\<rparr>"

definition example_device ::
  "device_class \<Rightarrow> protocol option \<Rightarrow> nat port option \<Rightarrow> nat device"
where
  "example_device cls proto port =
     \<lparr>device_class = cls, self_name = ''example'', self_protocol = proto,
      self_protocol_class = None, self_port = port\<rparr>"

text \<open>
  A registry with the module \<^verbatim>\<open>mppsolar.protocols.pi30\<close>, which has the class
  \<^verbatim>\<open>pi30\<close>, and the module \<^verbatim>\<open>mppsolar.protocols.empty\<close>, which has no class.
\<close>

definition example_import :: "string \<Rightarrow> py_module option" where
  "example_import module_name =
     (if module_name = ''mppsolar.protocols.pi30'' then
        Some (\<lambda>attr. if attr = ''pi30'' then Some \<lparr>construct = Inr example_protocol\<rparr> else None)
      else if module_name = ''mppsolar.protocols.empty'' then Some (\<lambda>attr. None)
      else None)"

section \<open>The classifier\<close>

lemma colon_in_lower: "str_in '':'' (lower s) = str_in '':'' s"
  by (induction s) (auto simp: lower_def lower_char_def split: option.splits)

text \<open>
  C7, as the specification states it: every locator that contains a colon and does not
  contain \<^verbatim>\<open>test\<close> (case-insensitively) is classified as BLE. The classifier tries the
  USB and the ESP32 rules before the colon rule, so the statement holds for the locators
  that match neither of them: a locator that contains a colon, does not contain
  \<^verbatim>\<open>test\<close> or \<^verbatim>\<open>esp\<close> in any case, and contains neither \<^verbatim>\<open>hidraw\<close> nor
  \<^verbatim>\<open>mppsolar\<close>, is classified as BLE.
\<close>

theorem colon_locator_is_ble:
  assumes "str_in '':'' s"
    and "\<not> str_in ''test'' (lower s)"
    and "\<not> str_in ''hidraw'' s" and "\<not> str_in ''mppsolar'' s"
    and "\<not> str_in ''esp'' (lower s)"
  shows "get_port_type (Some s) = Inr PORT_TYPE_JKBLE"
  using assms colon_in_lower [of s] by (auto simp: get_port_type_def)

theorem colon_locator_is_ble_witness:
  "str_in '':'' ''3c:a5:09:0a:85:79'' \<and>
   \<not> str_in ''test'' (lower ''3c:a5:09:0a:85:79'') \<and>
   get_port_type (Some ''3c:a5:09:0a:85:79'') = Inr PORT_TYPE_JKBLE"
  using colon_locator_is_ble [of "''3c:a5:09:0a:85:79''"]
  by (simp add: lower_def lower_char_def)

text \<open>
  The locator \<^verbatim>\<open>hidraw:0\<close> contains a colon and does not contain \<^verbatim>\<open>test\<close>, and is
  classified as USB.
\<close>

theorem colon_locator_counterexample:
  "str_in '':'' ''hidraw:0'' \<and>
   \<not> str_in ''test'' (lower ''hidraw:0'') \<and>
   get_port_type (Some ''hidraw:0'') = Inr PORT_TYPE_USB \<and>
   get_port_type (Some ''hidraw:0'') \<noteq> Inr PORT_TYPE_JKBLE"
  by (simp add: get_port_type_def lower_def lower_char_def PORT_TYPE_USB_def PORT_TYPE_JKBLE_def)

text \<open>
  C8: classifying an empty or null locator does not crash and gives Serial. The empty
  string is classified as Serial. The null locator is not: \<^verbatim>\<open>is_test_device\<close>, which
  runs first, calls \<^verbatim>\<open>.lower()\<close> on it and raises \<^verbatim>\<open>AttributeError\<close>, although
  \<^verbatim>\<open>is_directusb_device\<close> guards against a null locator and \<^verbatim>\<open>set_port\<close> has
  \<^verbatim>\<open>None\<close> as its default.
\<close>

theorem get_port_type_null_locator:
  "get_port_type None = Inl AttributeError \<and>
   get_port_type (Some '''') = Inr PORT_TYPE_SERIAL \<and>
   is_directusb_device None = Inr False"
  by (simp add: get_port_type_def lower_def)

section \<open>Running a command on an unbound device\<close>

text \<open>
  C1: on a device with no protocol bound, \<^verbatim>\<open>run_command\<close> of either class returns the
  Response \<^verbatim>\<open>{"ERROR": ["Attempted to run command with no protocol defined", ""]}\<close>, whether
  a transport is bound or not, and leaves the device and the log of calls as they were;
  with a protocol bound and no transport it returns
  \<^verbatim>\<open>{"ERROR": ["No communications port defined - unable to run command {name}", ""]}\<close>,
  again with the device and the log unchanged; and the two responses differ.
\<close>

theorem run_command_unbound:
  "(self_protocol (fst w) = None \<longrightarrow>
      run_command command show_raw w =
        ([PStr ''ERROR'' \<mapsto>
            [PStr ''Attempted to run command with no protocol defined'', PStr '''']], w)) \<and>
   (self_protocol (fst w) \<noteq> None \<and> self_port (fst w) = None \<longrightarrow>
      run_command command show_raw w =
        ([PStr ''ERROR'' \<mapsto>
            [PStr (''No communications port defined - unable to run command '' @ command),
             PStr '''']], w)) \<and>
   [PStr ''ERROR'' \<mapsto> [PStr ''Attempted to run command with no protocol defined'', PStr '''']]
     (PStr ''ERROR'') \<noteq>
   [PStr ''ERROR'' \<mapsto>
      [PStr (''No communications port defined - unable to run command '' @ command), PStr '''']]
     (PStr ''ERROR'')"
  by (cases w; cases "device_class (fst w)")
     (auto simp: run_command_def jk24s_run_command_def mppsolar_run_command_def
        no_protocol_response_def no_port_response_def split: option.splits)

theorem run_command_unbound_witness:
  "self_protocol (example_device jk24s None (Some (example_port SerialIO))) = None \<and>
   run_command ''QPI'' (PBool True) (example_device jk24s None (Some (example_port SerialIO)), []) =
     ([PStr ''ERROR'' \<mapsto>
         [PStr ''Attempted to run command with no protocol defined'', PStr '''']],
      (example_device jk24s None (Some (example_port SerialIO)), [])) \<and>
   self_protocol (example_device mppsolar (Some example_protocol) None) \<noteq> None \<and>
   self_port (example_device mppsolar (Some example_protocol) None) = None \<and>
   run_command ''QPI'' (PBool True) (example_device mppsolar (Some example_protocol) None, []) =
     ([PStr ''ERROR'' \<mapsto>
         [PStr ''No communications port defined - unable to run command QPI'', PStr '''']],
      (example_device mppsolar (Some example_protocol) None, []))"
  using
    run_command_unbound [of "(example_device jk24s None (Some (example_port SerialIO)), [])"
      "''QPI''" "PBool True"]
    run_command_unbound [of "(example_device mppsolar (Some example_protocol) None, [])"
      "''QPI''" "PBool True"]
  by (simp add: example_device_def)

text \<open>
  C9: with no protocol bound, \<^verbatim>\<open>run_default_command\<close> fails the way \<^verbatim>\<open>run_command\<close>
  does, with the ERROR Response. On the device below, which has no protocol,
  \<^verbatim>\<open>run_command\<close> returns that Response, and \<^verbatim>\<open>run_default_command\<close> raises
  \<^verbatim>\<open>AttributeError\<close>: it reads \<^verbatim>\<open>self._protocol.DEFAULT_COMMAND\<close> without the guard that
  \<^verbatim>\<open>run_command\<close> and \<^verbatim>\<open>list_commands\<close> have.
\<close>

theorem run_default_command_unbound:
  "fst (run_default_command (PBool False)
          (example_device mppsolar None (Some (example_port SerialIO)), [])) =
     Inl AttributeError \<and>
   fst (run_command ''QPI'' (PBool False)
          (example_device mppsolar None (Some (example_port SerialIO)), [])) =
     [PStr ''ERROR'' \<mapsto> [PStr ''Attempted to run command with no protocol defined'', PStr '''']]"
  by (simp add: run_default_command_def run_command_def mppsolar_run_command_def
      no_protocol_response_def example_device_def)

section \<open>Running a command on a bound device\<close>

text \<open>
  What \<^verbatim>\<open>jk24s.run_command\<close> does on a transport other than \<^verbatim>\<open>JkBleIO\<close>, for every
  codec, transport, state and command: it asks the codec for the full command, calls the
  raw \<^verbatim>\<open>send_and_receive\<close> with it (the test transport is handed the command definition
  as well), and returns the codec's \<^verbatim>\<open>decode\<close> of the raw reply with \<^verbatim>\<open>show_raw\<close> and
  the command name.
\<close>

lemma jk24s_run_command_bound:
  assumes "device_class self = jk24s"
    and "self_protocol self = Some proto" and "self_port self = Some port"
    and "port_class port \<noteq> JkBleIO"
  shows
    "(port_class port \<noteq> TestIO \<and>
      send_and_receive1 port (port_state port) (get_full_command proto command) = (Raw raw, st) \<longrightarrow>
        run_command command show_raw (self, log) =
          (decode proto raw show_raw command,
           (self\<lparr>self_port := Some (port\<lparr>port_state := st\<rparr>)\<rparr>,
            log @ [GetFullCommand command, SendAndReceive1 (get_full_command proto command),
                   Decode raw show_raw command]))) \<and>
     (port_class port = TestIO \<and>
      send_and_receive2 port (port_state port) (get_full_command proto command)
        (get_command_defn proto command) = (Raw raw, st) \<longrightarrow>
        run_command command show_raw (self, log) =
          (decode proto raw show_raw command,
           (self\<lparr>self_port := Some (port\<lparr>port_state := st\<rparr>)\<rparr>,
            log @ [GetFullCommand command, GetCommandDefn command,
                   SendAndReceive2 (get_full_command proto command)
                     (get_command_defn proto command),
                   Decode raw show_raw command])))"
  using assms
  by (simp add: run_command_def jk24s_run_command_def Let_def)

text \<open>
  What \<^verbatim>\<open>mppsolar.run_command\<close> does on every transport, \<^verbatim>\<open>JkBleIO\<close> or not: the one
  call it makes is \<^verbatim>\<open>send_and_receive(command, show_raw, protocol)\<close>.
\<close>

lemma mppsolar_run_command_bound:
  assumes "device_class self = mppsolar"
    and "self_protocol self = Some proto" and "self_port self = Some port"
  shows "snd (snd (run_command command show_raw (self, log))) =
    log @ [SendAndReceive3 command show_raw]"
  using assms
  by (simp add: run_command_def mppsolar_run_command_def split: prod.splits)

text \<open>
  C2: every device class bound to a protocol and to a protocol-agnostic transport first
  asks the codec for the full command with \<^verbatim>\<open>get_full_command\<close>, then calls the raw
  \<^verbatim>\<open>send_and_receive\<close> with it, and returns the codec's \<^verbatim>\<open>decode\<close> of the raw reply.
  On the same codec and the same serial transport, the \<^verbatim>\<open>jk24s\<close> device does so: its
  calls are \<^verbatim>\<open>get_full_command\<close>, the one-argument \<^verbatim>\<open>send_and_receive\<close> and
  \<^verbatim>\<open>decode\<close>, and it returns what \<^verbatim>\<open>decode\<close> gives. The \<^verbatim>\<open>mppsolar\<close> device does not:
  it never asks the codec for the full command and never calls \<^verbatim>\<open>decode\<close>; its one call
  is \<^verbatim>\<open>send_and_receive(command, show_raw, protocol)\<close>, the shape of the protocol-aware
  transport, on a transport whose interface (\<^verbatim>\<open>BaseIO.send_and_receive(self, full_command)\<close>)
  takes the full command.
\<close>

theorem mppsolar_run_command_skips_codec:
  "device_class (example_device mppsolar (Some example_protocol) (Some (example_port SerialIO))) =
     mppsolar \<and>
   self_protocol (example_device mppsolar (Some example_protocol) (Some (example_port SerialIO))) =
     Some example_protocol \<and>
   map_option port_class
     (self_port (example_device mppsolar (Some example_protocol) (Some (example_port SerialIO)))) =
     Some SerialIO \<and>
   snd (snd (run_command ''QPI'' (PBool False)
     (example_device mppsolar (Some example_protocol) (Some (example_port SerialIO)), []))) =
     [SendAndReceive3 ''QPI'' (PBool False)] \<and>
   GetFullCommand ''QPI'' \<notin> set (snd (snd (run_command ''QPI'' (PBool False)
     (example_device mppsolar (Some example_protocol) (Some (example_port SerialIO)), [])))) \<and>
   snd (snd (run_command ''QPI'' (PBool False)
     (example_device jk24s (Some example_protocol) (Some (example_port SerialIO)), []))) =
     [GetFullCommand ''QPI'', SendAndReceive1 (PBytes ''QPI#''),
      Decode (PTuple [PInt 0, PBytes ''QPI#'']) (PBool False) ''QPI''] \<and>
   fst (run_command ''QPI'' (PBool False)
     (example_device jk24s (Some example_protocol) (Some (example_port SerialIO)), [])) =
     decode example_protocol (PTuple [PInt 0, PBytes ''QPI#'']) (PBool False) ''QPI''"
  by (simp add: run_command_def mppsolar_run_command_def jk24s_run_command_def Let_def
      example_device_def example_port_def example_protocol_def)

text \<open>
  C5: when the raw \<^verbatim>\<open>send_and_receive\<close> of a protocol-agnostic transport returns a
  dictionary, \<^verbatim>\<open>run_command\<close> returns that dictionary as it is, and the codec's
  \<^verbatim>\<open>decode\<close> is not called: the log gains the encoding and the transport call only. For
  \<^verbatim>\<open>mppsolar\<close>, the dictionary the transport returns is returned as it is after the
  transport call alone.
\<close>

theorem transport_error_returned:
  assumes "self_protocol self = Some proto" and "self_port self = Some port"
    and "port_class port \<noteq> JkBleIO"
  shows
    "(device_class self = jk24s \<and> port_class port \<noteq> TestIO \<and>
      send_and_receive1 port (port_state port) (get_full_command proto command) = (Dict d, st) \<longrightarrow>
        run_command command show_raw (self, log) =
          (d,
           (self\<lparr>self_port := Some (port\<lparr>port_state := st\<rparr>)\<rparr>,
            log @ [GetFullCommand command, SendAndReceive1 (get_full_command proto command)]))) \<and>
     (device_class self = jk24s \<and> port_class port = TestIO \<and>
      send_and_receive2 port (port_state port) (get_full_command proto command)
        (get_command_defn proto command) = (Dict d, st) \<longrightarrow>
        run_command command show_raw (self, log) =
          (d,
           (self\<lparr>self_port := Some (port\<lparr>port_state := st\<rparr>)\<rparr>,
            log @ [GetFullCommand command, GetCommandDefn command,
                   SendAndReceive2 (get_full_command proto command)
                     (get_command_defn proto command)]))) \<and>
     (device_class self = mppsolar \<and>
      send_and_receive3 port (port_state port) command show_raw proto = (d, st) \<longrightarrow>
        run_command command show_raw (self, log) =
          (d,
           (self\<lparr>self_port := Some (port\<lparr>port_state := st\<rparr>)\<rparr>,
            log @ [SendAndReceive3 command show_raw])))"
  using assms
  by (simp add: run_command_def jk24s_run_command_def mppsolar_run_command_def Let_def)

theorem transport_error_returned_witness:
  "fst (run_command ''QPI'' (PBool True)
          (example_device jk24s (Some example_protocol)
             (Some ((example_port SerialIO)\<lparr>port_state := 2\<rparr>)), [])) =
     [PStr ''ERROR'' \<mapsto> [PStr ''timeout'', PStr '''']] \<and>
   snd (snd (run_command ''QPI'' (PBool True)
          (example_device jk24s (Some example_protocol)
             (Some ((example_port SerialIO)\<lparr>port_state := 2\<rparr>)), []))) =
     [GetFullCommand ''QPI'', SendAndReceive1 (PBytes ''QPI#'')]"
  using
    transport_error_returned [where self =
      "example_device jk24s (Some example_protocol)
         (Some ((example_port SerialIO)\<lparr>port_state := 2\<rparr>))"
      and proto = example_protocol and port = "(example_port SerialIO)\<lparr>port_state := 2\<rparr>"
      and command = "''QPI''" and d = "[PStr ''ERROR'' \<mapsto> [PStr ''timeout'', PStr '''']]"
      and st = 3 and show_raw = "PBool True" and log = "[]"]
  by (simp add: example_device_def example_port_def example_protocol_def)

section \<open>Binding a protocol that cannot be resolved\<close>

text \<open>
  C4: for every protocol name, when the module of the lower-cased name is not found, or
  is found and has no attribute of that lower-cased name, \<^verbatim>\<open>set_protocol\<close> raises
  nothing and leaves both the protocol instance and the protocol class unbound;
  \<^verbatim>\<open>run_command\<close> on the device it leaves returns the ERROR Response of a device with
  no protocol, for either class. This holds whatever \<^verbatim>\<open>str.lower()\<close> makes of the name.
\<close>

theorem set_protocol_unresolved:
  assumes
    "import_module (''mppsolar.protocols.'' @ str_lower name) = None \<or>
     (\<exists>m. import_module (''mppsolar.protocols.'' @ str_lower name) = Some m \<and>
          m (str_lower name) = None)"
  shows
    "set_protocol str_lower import_module (Some name) self =
       (None, self\<lparr>self_protocol := None, self_protocol_class := None\<rparr>) \<and>
     run_command command show_raw
       (snd (set_protocol str_lower import_module (Some name) self), log) =
       ([PStr ''ERROR'' \<mapsto>
           [PStr ''Attempted to run command with no protocol defined'', PStr '''']],
        (snd (set_protocol str_lower import_module (Some name) self), log))"
proof -
  have unbound: "set_protocol str_lower import_module (Some name) self =
      (None, self\<lparr>self_protocol := None, self_protocol_class := None\<rparr>)"
    using assms by (auto simp: set_protocol_def Let_def)
  show ?thesis
    unfolding unbound
    by (cases "device_class self")
       (simp_all add: run_command_def jk24s_run_command_def mppsolar_run_command_def
          no_protocol_response_def)
qed

theorem set_protocol_unresolved_witness:
  "example_import (''mppsolar.protocols.'' @ lower ''PI99'') = None \<and>
   fst (set_protocol lower example_import (Some ''PI99'')
          ((example_device jk24s (Some example_protocol) (Some (example_port SerialIO)))
             \<lparr>self_protocol_class := Some \<lparr>construct = Inr example_protocol\<rparr>\<rparr>)) = None \<and>
   self_protocol (snd (set_protocol lower example_import (Some ''PI99'')
          ((example_device jk24s (Some example_protocol) (Some (example_port SerialIO)))
             \<lparr>self_protocol_class := Some \<lparr>construct = Inr example_protocol\<rparr>\<rparr>))) = None \<and>
   self_protocol_class (snd (set_protocol lower example_import (Some ''PI99'')
          ((example_device jk24s (Some example_protocol) (Some (example_port SerialIO)))
             \<lparr>self_protocol_class := Some \<lparr>construct = Inr example_protocol\<rparr>\<rparr>))) = None \<and>
   (\<exists>m. example_import (''mppsolar.protocols.'' @ lower ''Empty'') = Some m \<and>
          m (lower ''Empty'') = None) \<and>
   self_protocol (snd (set_protocol lower example_import (Some ''Empty'')
          (example_device mppsolar (Some example_protocol) (Some (example_port SerialIO))))) = None \<and>
   fst (run_command ''QPI'' (PBool False)
          (snd (set_protocol lower example_import (Some ''Empty'')
             (example_device mppsolar (Some example_protocol) (Some (example_port SerialIO)))),
           [])) =
     [PStr ''ERROR'' \<mapsto> [PStr ''Attempted to run command with no protocol defined'', PStr '''']]"
proof -
  have not_found: "example_import (''mppsolar.protocols.'' @ lower ''PI99'') = None"
    by (simp add: example_import_def lower_def lower_char_def)
  have no_symbol: "\<exists>m. example_import (''mppsolar.protocols.'' @ lower ''Empty'') = Some m \<and>
      m (lower ''Empty'') = None"
    by (simp add: example_import_def lower_def lower_char_def)
  note pi99 =
    set_protocol_unresolved [where str_lower = lower and import_module = example_import
      and name = "''PI99''"
      and self = "(example_device jk24s (Some example_protocol) (Some (example_port SerialIO)))
         \<lparr>self_protocol_class := Some \<lparr>construct = Inr example_protocol\<rparr>\<rparr>"
      and command = "''QPI''" and show_raw = "PBool False" and log = "[]",
      OF disjI1 [OF not_found]]
  note empty =
    set_protocol_unresolved [where str_lower = lower and import_module = example_import
      and name = "''Empty''"
      and self = "example_device mppsolar (Some example_protocol) (Some (example_port SerialIO))"
      and command = "''QPI''" and show_raw = "PBool False" and log = "[]",
      OF disjI2 [OF no_symbol]]
  show ?thesis
    using not_found no_symbol pi99 [THEN conjunct1] empty [THEN conjunct1] empty [THEN conjunct2]
    by simp
qed

section \<open>Status and settings\<close>

lemma update_loop_merged:
  "update_loop cs data w =
     ((\<lambda>k. case merged (fst (run_each cs w)) k of Some v \<Rightarrow> Some v | None \<Rightarrow> data k),
      snd (run_each cs w))"
proof (induction cs arbitrary: data w)
  case Nil
  show ?case by simp
next
  case (Cons c cs)
  obtain r w1 where step: "run_command c (PBool False) w = (r, w1)"
    by (cases "run_command c (PBool False) w")
  obtain rs w2 where rest: "run_each cs w1 = (rs, w2)"
    by (cases "run_each cs w1")
  have "update_loop (c # cs) data w = update_loop cs (dict_update data r) w1"
    using step by simp
  also have "\<dots> =
      ((\<lambda>k. case merged rs k of Some v \<Rightarrow> Some v | None \<Rightarrow> dict_update data r k), w2)"
    using Cons.IH [of "dict_update data r" w1] rest by simp
  also have "(\<lambda>k. case merged rs k of Some v \<Rightarrow> Some v | None \<Rightarrow> dict_update data r k) =
      (\<lambda>k. case merged (r # rs) k of Some v \<Rightarrow> Some v | None \<Rightarrow> data k)"
    by (rule ext) (simp add: dict_update_def map_add_def split: option.splits)
  finally show ?case
    using step rest by simp
qed

lemma merged_over_empty:
  "(\<lambda>k. case merged rs k of Some v \<Rightarrow> Some v | None \<Rightarrow> Map.empty k) = merged rs"
  by (rule ext) (simp split: option.splits)

text \<open>
  C6: with a protocol bound, \<^verbatim>\<open>get_status\<close> (\<^verbatim>\<open>get_settings\<close>) runs the commands of the
  codec's \<^verbatim>\<open>STATUS_COMMANDS\<close> (\<^verbatim>\<open>SETTINGS_COMMANDS\<close>) in the order of the list, each from
  the state the one before left, and returns the one mapping in which every key holds
  the value of the latest response that has it.
\<close>

theorem get_status_merges:
  assumes "self_protocol (fst w) = Some proto"
  shows
    "get_status show_raw w =
       (Inr (merged (fst (run_each (STATUS_COMMANDS proto) w))),
        snd (run_each (STATUS_COMMANDS proto) w)) \<and>
     get_settings show_raw w =
       (Inr (merged (fst (run_each (SETTINGS_COMMANDS proto) w))),
        snd (run_each (SETTINGS_COMMANDS proto) w))"
  using assms
  by (simp add: get_status_def get_settings_def update_loop_merged merged_over_empty)

theorem get_status_merges_witness:
  "self_protocol
     (fst (example_device jk24s (Some example_protocol) (Some (example_port SerialIO)), [])) =
     Some example_protocol \<and>
   snd (snd (get_status (PBool True)
     (example_device jk24s (Some example_protocol) (Some (example_port SerialIO)), []))) =
     [GetFullCommand ''QPIGS'', SendAndReceive1 (PBytes ''QPIGS#''),
      Decode (PTuple [PInt 0, PBytes ''QPIGS#'']) (PBool False) ''QPIGS'',
      GetFullCommand ''Q1'', SendAndReceive1 (PBytes ''Q1#''),
      Decode (PTuple [PInt 1, PBytes ''Q1#'']) (PBool False) ''Q1''] \<and>
   (\<exists>data.
      fst (get_status (PBool True)
        (example_device jk24s (Some example_protocol) (Some (example_port SerialIO)), [])) =
        Inr data \<and>
      dict_get data (PStr ''QPIGS'') = Some [PTuple [PInt 0, PBytes ''QPIGS#''], PStr ''''] \<and>
      dict_get data (PStr ''Q1'') = Some [PTuple [PInt 1, PBytes ''Q1#''], PStr ''''] \<and>
      dict_get data (PStr ''last'') = Some [PStr ''Q1'', PStr ''''])"
  using get_status_merges [where
      w = "(example_device jk24s (Some example_protocol) (Some (example_port SerialIO)), [])"
      and proto = example_protocol and show_raw = "PBool True"]
  by (simp add: example_device_def example_port_def example_protocol_def run_command_def
      jk24s_run_command_def Let_def dict_get_def)

lemma run_command_log:
  "\<exists>evs. snd (snd (run_command c sr w)) = snd w @ evs \<and>
     list_all (\<lambda>e. event_show_raw e = None \<or> event_show_raw e = Some sr) evs"
  by (cases w; cases "device_class (fst w)")
     (auto simp: run_command_def jk24s_run_command_def mppsolar_run_command_def Let_def
        split: option.splits prod.splits raw_response.splits)

lemma update_loop_log:
  "\<exists>evs. snd (snd (update_loop cs data w)) = snd w @ evs \<and>
     list_all (\<lambda>e. event_show_raw e = None \<or> event_show_raw e = Some (PBool False)) evs"
proof (induction cs arbitrary: data w)
  case Nil
  show ?case by simp
next
  case (Cons c cs)
  obtain r w1 where step: "run_command c (PBool False) w = (r, w1)"
    by (cases "run_command c (PBool False) w")
  from run_command_log [of c "PBool False" w] step obtain evs1 where
    1: "snd w1 = snd w @ evs1"
       "list_all (\<lambda>e. event_show_raw e = None \<or> event_show_raw e = Some (PBool False)) evs1"
    by auto
  from Cons.IH [of "dict_update data r" w1] obtain evs2 where
    2: "snd (snd (update_loop cs (dict_update data r) w1)) = snd w1 @ evs2"
       "list_all (\<lambda>e. event_show_raw e = None \<or> event_show_raw e = Some (PBool False)) evs2"
    by auto
  from 1 2 step show ?case
    by (intro exI [of _ "evs1 @ evs2"]) simp
qed

text \<open>
  C10: \<^verbatim>\<open>get_status\<close> and \<^verbatim>\<open>get_settings\<close> ignore their \<^verbatim>\<open>show_raw\<close> argument. For
  any two values of it and the same device state the results, the final states and the
  logs are equal, and every call they add to the log that carries a \<^verbatim>\<open>show_raw\<close> flag
  carries \<^verbatim>\<open>False\<close>, the default of \<^verbatim>\<open>run_command\<close>.
\<close>

theorem get_status_ignores_show_raw:
  "get_status a w = get_status b w \<and>
   get_settings a w = get_settings b w \<and>
   (\<exists>evs. snd (snd (get_status a w)) = snd w @ evs \<and>
      list_all (\<lambda>e. event_show_raw e = None \<or> event_show_raw e = Some (PBool False)) evs) \<and>
   (\<exists>evs. snd (snd (get_settings a w)) = snd w @ evs \<and>
      list_all (\<lambda>e. event_show_raw e = None \<or> event_show_raw e = Some (PBool False)) evs)"
proof -
  have "\<exists>evs. snd (snd (get_status a w)) = snd w @ evs \<and>
      list_all (\<lambda>e. event_show_raw e = None \<or> event_show_raw e = Some (PBool False)) evs"
  proof (cases "self_protocol (fst w)")
    case None
    then show ?thesis by (simp add: get_status_def)
  next
    case (Some proto)
    obtain data w' where "update_loop (STATUS_COMMANDS proto) Map.empty w = (data, w')"
      by (cases "update_loop (STATUS_COMMANDS proto) Map.empty w")
    with Some update_loop_log [of "STATUS_COMMANDS proto" Map.empty w] show ?thesis
      by (simp add: get_status_def)
  qed
  moreover have "\<exists>evs. snd (snd (get_settings a w)) = snd w @ evs \<and>
      list_all (\<lambda>e. event_show_raw e = None \<or> event_show_raw e = Some (PBool False)) evs"
  proof (cases "self_protocol (fst w)")
    case None
    then show ?thesis by (simp add: get_settings_def)
  next
    case (Some proto)
    obtain data w' where "update_loop (SETTINGS_COMMANDS proto) Map.empty w = (data, w')"
      by (cases "update_loop (SETTINGS_COMMANDS proto) Map.empty w")
    with Some update_loop_log [of "SETTINGS_COMMANDS proto" Map.empty w] show ?thesis
      by (simp add: get_settings_def)
  qed
  ultimately show ?thesis
    by (simp add: get_status_def get_settings_def)
qed

section \<open>Running a batch\<close>

lemma dict_get_dict_set:
  "dict_get (dict_set k v d) k' = (if py_eq k k' then Some v else dict_get d k')"
  by (auto simp: dict_get_def dict_set_def py_eq_def)

lemma dict_keys_dict_set: "dict_keys (dict_set k v d) = insert (key_norm k) (dict_keys d)"
  by (simp add: dict_keys_def dict_set_def)

lemma run_commands_loop_runs:
  assumes "entry_fits c" and "entry_command c = Some (command, show_raw)"
    and "run_command command show_raw w = (r, w1)"
  shows "run_commands_loop i (c # cs) R w =
    run_commands_loop (Suc i) cs (dict_set (entry_key i c) r R) w1"
  using assms by (cases c rule: entry_command.cases) (auto simp: call_run_command_def)

lemma run_commands_loop_unknown:
  assumes "entry_command c = None"
  shows "run_commands_loop i (c # cs) R w =
    run_commands_loop (Suc i) cs (dict_set (entry_key i c) unknown_format_response R) w"
  using assms by (cases c rule: entry_command.cases) simp_all

lemma run_commands_loop_filed:
  assumes "list_all entry_fits cs"
  shows "\<exists>R'. run_commands_loop i cs R w = (Inr R', snd (filed i cs w)) \<and>
      (\<forall>k. dict_get R' k =
         (case latest (fst (filed i cs w)) k of Some x \<Rightarrow> Some x | None \<Rightarrow> dict_get R k)) \<and>
      dict_keys R' = dict_keys R \<union> key_norm ` fst ` set (fst (filed i cs w))"
  using assms
proof (induction cs arbitrary: i R w)
  case Nil
  show ?case by simp
next
  case (Cons c cs)
  then have fits: "entry_fits c" and rest: "list_all entry_fits cs"
    by simp_all
  show ?case
  proof (cases "entry_command c")
    case None
    obtain ps w' where f: "filed (Suc i) cs w = (ps, w')"
      by (cases "filed (Suc i) cs w")
    let ?R = "dict_set (entry_key i c) unknown_format_response R"
    from Cons.IH [OF rest, of "Suc i" ?R w] f obtain R' where
      loop: "run_commands_loop (Suc i) cs ?R w = (Inr R', w')" and
      gets: "\<forall>k. dict_get R' k =
        (case latest ps k of Some x \<Rightarrow> Some x | None \<Rightarrow> dict_get ?R k)" and
      keys: "dict_keys R' = dict_keys ?R \<union> key_norm ` fst ` set ps"
      by auto
    have "run_commands_loop i (c # cs) R w = (Inr R', w')"
      using run_commands_loop_unknown [OF None, of i cs R w] loop by simp
    moreover have "snd (filed i (c # cs) w) = w'"
      using None f by simp
    ultimately have "run_commands_loop i (c # cs) R w = (Inr R', snd (filed i (c # cs) w))"
      by simp
    moreover have "dict_get R' k =
        (case latest (fst (filed i (c # cs) w)) k of Some x \<Rightarrow> Some x | None \<Rightarrow> dict_get R k)"
      for k
      using gets [rule_format, of k] None f
      by (simp add: dict_get_dict_set split: option.splits)
    moreover have "dict_keys R' = dict_keys R \<union> key_norm ` fst ` set (fst (filed i (c # cs) w))"
      using keys None f by (simp add: dict_keys_dict_set)
    ultimately show ?thesis
      by blast
  next
    case (Some p)
    obtain command show_raw where p: "p = (command, show_raw)"
      by (cases p)
    obtain r w1 where run: "run_command command show_raw w = (r, w1)"
      by (cases "run_command command show_raw w")
    obtain ps w2 where f: "filed (Suc i) cs w1 = (ps, w2)"
      by (cases "filed (Suc i) cs w1")
    let ?R = "dict_set (entry_key i c) r R"
    from Cons.IH [OF rest, of "Suc i" ?R w1] f obtain R' where
      loop: "run_commands_loop (Suc i) cs ?R w1 = (Inr R', w2)" and
      gets: "\<forall>k. dict_get R' k =
        (case latest ps k of Some x \<Rightarrow> Some x | None \<Rightarrow> dict_get ?R k)" and
      keys: "dict_keys R' = dict_keys ?R \<union> key_norm ` fst ` set ps"
      by auto
    have cmd: "entry_command c = Some (command, show_raw)"
      using Some p by simp
    have "run_commands_loop i (c # cs) R w = (Inr R', w2)"
      using run_commands_loop_runs [OF fits cmd run, of i cs R] loop by simp
    moreover have "snd (filed i (c # cs) w) = w2"
      using cmd run f by simp
    ultimately have "run_commands_loop i (c # cs) R w = (Inr R', snd (filed i (c # cs) w))"
      by simp
    moreover have "dict_get R' k =
        (case latest (fst (filed i (c # cs) w)) k of Some x \<Rightarrow> Some x | None \<Rightarrow> dict_get R k)"
      for k
      using gets [rule_format, of k] cmd run f
      by (simp add: dict_get_dict_set split: option.splits)
    moreover have "dict_keys R' = dict_keys R \<union> key_norm ` fst ` set (fst (filed i (c # cs) w))"
      using keys cmd run f by (simp add: dict_keys_dict_set)
    ultimately show ?thesis
      by blast
  qed
qed

text \<open>
  C3, as the specification states it, has a tuple of any length above two run its first
  element with all the remaining elements as extra arguments, and gives the batch
  \<^verbatim>\<open>["A", ("B","alias"), ("C","alias2",1,2)]\<close> the keys \<^verbatim>\<open>A\<close>, \<^verbatim>\<open>alias\<close>, \<^verbatim>\<open>alias2\<close>.
  \<^verbatim>\<open>run_command\<close> takes one extra argument, \<^verbatim>\<open>show_raw\<close>. So, for a batch whose tuples
  have at most three elements: \<^verbatim>\<open>run_commands\<close> raises nothing and runs the entries in
  the given order, each from the state the one before left (a string and a 1-tuple run
  under their own name, a 2-tuple and a 3-tuple run the first element and are filed under
  the second, the third element of a 3-tuple being \<^verbatim>\<open>show_raw\<close>; any other entry gives
  the ERROR Response \<^verbatim>\<open>Unknown command format\<close> under \<^verbatim>\<open>Command i\<close>); a key of the
  mapping returned holds the result of the last entry filed under it; and the keys of the
  mapping are exactly the keys the entries are filed under.
\<close>

theorem run_commands_files_in_order:
  assumes "list_all entry_fits commands"
  shows "\<exists>responses.
      run_commands commands w = (Inr responses, snd (filed 0 commands w)) \<and>
      (\<forall>k. dict_get responses k = latest (fst (filed 0 commands w)) k) \<and>
      dict_keys responses = key_norm ` fst ` set (fst (filed 0 commands w))"
proof -
  from run_commands_loop_filed [OF assms, of 0 Map.empty w] obtain R' where
    loop: "run_commands_loop 0 commands Map.empty w = (Inr R', snd (filed 0 commands w))" and
    gets: "\<forall>k. dict_get R' k =
      (case latest (fst (filed 0 commands w)) k of Some x \<Rightarrow> Some x
       | None \<Rightarrow> dict_get Map.empty k)" and
    keys: "dict_keys R' =
      dict_keys (Map.empty :: response pydict) \<union>
      key_norm ` fst ` set (fst (filed 0 commands w))"
    by blast
  have "dict_get R' k = latest (fst (filed 0 commands w)) k" for k
    using gets [rule_format, of k] by (simp add: dict_get_def split: option.splits)
  moreover have "dict_keys R' = key_norm ` fst ` set (fst (filed 0 commands w))"
    using keys by (simp add: dict_keys_def)
  ultimately show ?thesis
    using loop by (simp add: run_commands_def)
qed

theorem run_commands_files_in_order_witness:
  "list_all entry_fits
     [EStr ''A'', ETuple ''B'' [PStr ''alias''], ETuple ''C'' [PStr ''alias2'', PInt 1],
      EOther, ETuple ''D'' [PStr ''A'']] \<and>
   (\<exists>responses.
      fst (run_commands
        [EStr ''A'', ETuple ''B'' [PStr ''alias''], ETuple ''C'' [PStr ''alias2'', PInt 1],
         EOther, ETuple ''D'' [PStr ''A'']]
        (example_device mppsolar (Some example_protocol) (Some (example_port SerialIO)), [])) =
        Inr responses \<and>
      dict_keys responses = {PStr ''A'', PStr ''alias'', PStr ''alias2'', PStr ''Command 3''} \<and>
      dict_get responses (PStr ''A'') = Some [PStr ''D'' \<mapsto> [PInt 3, PStr ''V'']] \<and>
      dict_get responses (PStr ''alias'') = Some [PStr ''B'' \<mapsto> [PInt 1, PStr ''V'']] \<and>
      dict_get responses (PStr ''Command 3'') =
        Some [PStr ''ERROR'' \<mapsto> [PStr ''Unknown command format'', PStr ''(Indexed from 0)'']]) \<and>
   snd (snd (run_commands
        [EStr ''A'', ETuple ''B'' [PStr ''alias''], ETuple ''C'' [PStr ''alias2'', PInt 1],
         EOther, ETuple ''D'' [PStr ''A'']]
        (example_device mppsolar (Some example_protocol) (Some (example_port SerialIO)), []))) =
     [SendAndReceive3 ''A'' (PBool False), SendAndReceive3 ''B'' (PBool False),
      SendAndReceive3 ''C'' (PInt 1), SendAndReceive3 ''D'' (PBool False)]"
  using run_commands_files_in_order [where
      commands = "[EStr ''A'', ETuple ''B'' [PStr ''alias''],
        ETuple ''C'' [PStr ''alias2'', PInt 1], EOther, ETuple ''D'' [PStr ''A'']]"
      and w = "(example_device mppsolar (Some example_protocol) (Some (example_port SerialIO)), [])"]
  by (auto simp: example_device_def example_port_def run_command_def mppsolar_run_command_def
      unknown_format_response_def py_eq_def format_d.simps)

text \<open>
  The batch of the specification, on a device bound to a codec and a transport: the
  4-tuple does not fit \<^verbatim>\<open>run_command\<close>, and \<^verbatim>\<open>run_commands\<close> raises \<^verbatim>\<open>TypeError\<close>
  after it has run \<^verbatim>\<open>A\<close> and \<^verbatim>\<open>B\<close>, returning no mapping.
\<close>

theorem run_commands_counterexample:
  "fst (run_commands
     [EStr ''A'', ETuple ''B'' [PStr ''alias''], ETuple ''C'' [PStr ''alias2'', PInt 1, PInt 2]]
     (example_device mppsolar (Some example_protocol) (Some (example_port SerialIO)), [])) =
     Inl TypeError \<and>
   snd (snd (run_commands
     [EStr ''A'', ETuple ''B'' [PStr ''alias''], ETuple ''C'' [PStr ''alias2'', PInt 1, PInt 2]]
     (example_device mppsolar (Some example_protocol) (Some (example_port SerialIO)), []))) =
     [SendAndReceive3 ''A'' (PBool False), SendAndReceive3 ''B'' (PBool False)]"
  by (simp add: run_commands_def call_run_command_def run_command_def mppsolar_run_command_def
      example_device_def example_port_def)

end
